theory Spec2Isabelle
  imports Main
begin

section \<open>The MLP head of vissl/models/heads/mlp.py\<close>

text \<open>
  The module assembles a sequential stack out of four kinds of runtime layers and, on a
  forward pass, squeezes the batch and hands it to the stack. The embedding records each
  constructor call of the source as a value of the datatype \<open>layer\<close>, with the arguments
  the source passes. Widths are taken as natural numbers: the dimension sequence of the
  specification is a sequence of positive integers, and what the runtime's constructors
  do with other arguments is outside the module. The two normalisation parameters are
  floats that the source only passes on; their type is left open.
\<close>

subsection \<open>Data\<close>

datatype error = IndexError | AttributeError | ShapeMismatchError

text \<open>
  \<open>Linear last_dim dim bias\<close> is \<^verbatim>\<open>nn.Linear(last_dim, dim, bias=use_bias)\<close>,
  \<open>BatchNorm1d dim eps momentum\<close> is \<^verbatim>\<open>nn.BatchNorm1d(dim, eps=..., momentum=...)\<close>,
  \<open>ReLU inplace\<close> is \<^verbatim>\<open>nn.ReLU(inplace=...)\<close> and \<open>Dropout\<close> is \<^verbatim>\<open>nn.Dropout()\<close>,
  which is given no probability.
\<close>

datatype 'f layer =
    Linear nat nat bool
  | BatchNorm1d nat 'f 'f
  | ReLU bool
  | Dropout

text \<open>
  The configuration is an attribute dictionary: an attribute may be missing, and reading
  a missing attribute raises. A field that may be missing is an option.
\<close>

record 'f head_config =
  BATCHNORM_EPS :: "'f option"
  BATCHNORM_MOMENTUM :: "'f option"

record 'f model_config =
  HEAD :: "'f head_config option"

text \<open>The object built by the constructor has one attribute, \<^verbatim>\<open>self.clf\<close>.\<close>

record 'f MLP =
  clf :: "'f layer list"

subsection \<open>Construction\<close>

definition getattr :: "'a option \<Rightarrow> error + 'a" where
  "getattr field = (case field of None \<Rightarrow> Inl AttributeError | Some v \<Rightarrow> Inr v)"

text \<open>
  The keyword arguments of \<^verbatim>\<open>nn.BatchNorm1d\<close>, read in the order the source writes
  them: \<^verbatim>\<open>model_config.HEAD.BATCHNORM_EPS\<close>, then
  \<^verbatim>\<open>model_config.HEAD.BATCHNORM_MOMENTUM\<close>.
\<close>

definition bn_args :: "'f model_config \<Rightarrow> error + ('f \<times> 'f)" where
  "bn_args model_config =
     (case getattr (HEAD model_config) of
        Inl e \<Rightarrow> Inl e
      | Inr h1 \<Rightarrow>
         (case getattr (BATCHNORM_EPS h1) of
            Inl e \<Rightarrow> Inl e
          | Inr eps \<Rightarrow>
             (case getattr (HEAD model_config) of
                Inl e \<Rightarrow> Inl e
              | Inr h2 \<Rightarrow>
                 (case getattr (BATCHNORM_MOMENTUM h2) of
                    Inl e \<Rightarrow> Inl e
                  | Inr momentum \<Rightarrow> Inr (eps, momentum)))))"

text \<open>
  The body of \<^verbatim>\<open>for dim in dims[1:]\<close>, lines 51 to 64: one pass over the loop state
  \<open>(layers, last_dim)\<close>. Every \<^verbatim>\<open>layers.append(x)\<close> is \<open>layers @ [x]\<close>;
  \<open>last_dim\<close> is assigned only inside \<^verbatim>\<open>if use_relu\<close>.
\<close>

definition loop_body ::
  "'f model_config \<Rightarrow> bool \<Rightarrow> bool \<Rightarrow> bool \<Rightarrow> bool \<Rightarrow>
   'f layer list \<times> nat \<Rightarrow> nat \<Rightarrow> error + ('f layer list \<times> nat)" where
  "loop_body model_config use_bn use_relu use_dropout use_bias st dim =
     (let layers = fst st; last_dim = snd st;
          layers1 = layers @ [Linear last_dim dim use_bias]
      in case (if use_bn
               then (case bn_args model_config of
                       Inl e \<Rightarrow> Inl e
                     | Inr (eps, momentum) \<Rightarrow> Inr (layers1 @ [BatchNorm1d dim eps momentum]))
               else Inr layers1) of
           Inl e \<Rightarrow> Inl e
         | Inr layers2 \<Rightarrow>
             (let st3 = (if use_relu then (layers2 @ [ReLU True], dim) else (layers2, last_dim));
                  layers4 = (if use_dropout then fst st3 @ [Dropout] else fst st3)
              in Inr (layers4, snd st3)))"

text \<open>The loop itself: the body on each element in turn, stopping at the first raise.\<close>

fun for_dims ::
  "'f model_config \<Rightarrow> bool \<Rightarrow> bool \<Rightarrow> bool \<Rightarrow> bool \<Rightarrow>
   'f layer list \<times> nat \<Rightarrow> nat list \<Rightarrow> error + ('f layer list \<times> nat)" where
  "for_dims model_config use_bn use_relu use_dropout use_bias st [] = Inr st"
| "for_dims model_config use_bn use_relu use_dropout use_bias st (dim # rest) =
     (case loop_body model_config use_bn use_relu use_dropout use_bias st dim of
        Inl e \<Rightarrow> Inl e
      | Inr st' \<Rightarrow> for_dims model_config use_bn use_relu use_dropout use_bias st' rest)"

text \<open>
  \<^verbatim>\<open>MLP.__init__\<close>. \<^verbatim>\<open>dims[0]\<close> raises on the empty list; \<^verbatim>\<open>dims[1:]\<close> is the
  tail. The result is the object with \<^verbatim>\<open>clf = nn.Sequential(*layers)\<close>.
\<close>

definition MLP_init ::
  "'f model_config \<Rightarrow> nat list \<Rightarrow> bool \<Rightarrow> bool \<Rightarrow> bool \<Rightarrow> bool \<Rightarrow> error + 'f MLP" where
  "MLP_init model_config dims use_bn use_relu use_dropout use_bias =
     (case dims of
        [] \<Rightarrow> Inl IndexError
      | d0 # rest \<Rightarrow>
          (case for_dims model_config use_bn use_relu use_dropout use_bias ([], d0) rest of
             Inl e \<Rightarrow> Inl e
           | Inr st \<Rightarrow> Inr \<lparr>clf = fst st\<rparr>))"

subsection \<open>Forward pass\<close>

text \<open>
  \<^verbatim>\<open>nn.Sequential.__call__\<close> feeds the input through the layers in list order. What one
  layer does to a tensor is the runtime's business and is the parameter \<open>call\<close>; a layer
  that raises ends the pass.
\<close>

fun Sequential_call :: "('l \<Rightarrow> 't \<Rightarrow> error + 't) \<Rightarrow> 'l list \<Rightarrow> 't \<Rightarrow> error + 't" where
  "Sequential_call call [] x = Inr x"
| "Sequential_call call (l # ls) x =
     (case call l x of Inl e \<Rightarrow> Inl e | Inr y \<Rightarrow> Sequential_call call ls y)"

text \<open>
  \<^verbatim>\<open>MLP.forward\<close>, over any tensor type \<open>'t\<close>: \<open>squeeze\<close> stands for
  \<^verbatim>\<open>torch.squeeze\<close> and \<open>call\<close> for the layers' \<^verbatim>\<open>__call__\<close>.
\<close>

definition forward ::
  "('t \<Rightarrow> 't) \<Rightarrow> ('f layer \<Rightarrow> 't \<Rightarrow> error + 't) \<Rightarrow> 'f MLP \<Rightarrow> 't \<Rightarrow> error + 't" where
  "forward squeeze call self batch =
     (let batch1 = squeeze batch;
          out = Sequential_call call (clf self) batch1
      in out)"

subsection \<open>The runtime at the level of shapes\<close>

type_synonym shape = "nat list"

text \<open>
  Modelled from the spec: \<^verbatim>\<open>torch.squeeze\<close> is not part of the module. The glossary
  has it as the removal of all tensor axes of size 1.
\<close>

definition squeeze_shape :: "shape \<Rightarrow> shape" where
  "squeeze_shape s = filter (\<lambda>d. d \<noteq> 1) s"

text \<open>
  Modelled from the spec: the layers' own forward passes are not part of the module. A
  linear layer is the affine map \<open>y = x W\<^sup>T + b\<close> on the last axis, so it wants an input
  with a last axis of its input width and returns the same shape with the last axis at
  its output width; anything else is a shape mismatch. Normalisation works per feature
  channel on a batch of rank 2 or 3 whose axis 1 has its channel count, and keeps the
  shape. Rectification and dropout are elementwise.
\<close>

fun layer_shape :: "'f layer \<Rightarrow> shape \<Rightarrow> error + shape" where
  "layer_shape (Linear in_features out_features bias) s =
     (if s \<noteq> [] \<and> last s = in_features then Inr (butlast s @ [out_features])
      else Inl ShapeMismatchError)"
| "layer_shape (BatchNorm1d num_features eps momentum) s =
     (if (length s = 2 \<or> length s = 3) \<and> s ! 1 = num_features then Inr s
      else Inl ShapeMismatchError)"
| "layer_shape (ReLU inplace) s = Inr s"
| "layer_shape Dropout s = Inr s"

abbreviation forward_shape :: "'f MLP \<Rightarrow> shape \<Rightarrow> error + shape" where
  "forward_shape \<equiv> forward squeeze_shape layer_shape"

subsection \<open>Reading a stack\<close>

text \<open>The linear layers of a stack, in order, as (input width, output width).\<close>

fun linear_widths :: "'f layer list \<Rightarrow> (nat \<times> nat) list" where
  "linear_widths [] = []"
| "linear_widths (Linear i out b # ls) = (i, out) # linear_widths ls"
| "linear_widths (_ # ls) = linear_widths ls"

subsection \<open>The stack in closed form\<close>

text \<open>
  The layers one stage contributes, in the words of the specification: a linear layer
  \<open>last_dim \<rightarrow> dim\<close> with the bias flag, then a normalisation over \<open>dim\<close> channels iff
  \<open>use_bn\<close>, then an in-place rectifier iff \<open>use_relu\<close>, then a dropout iff
  \<open>use_dropout\<close>.
\<close>

definition spec_stage ::
  "bool \<Rightarrow> bool \<Rightarrow> bool \<Rightarrow> bool \<Rightarrow> 'f \<Rightarrow> 'f \<Rightarrow> nat \<times> nat \<Rightarrow> 'f layer list" where
  "spec_stage use_bn use_relu use_dropout use_bias eps momentum p =
     [Linear (fst p) (snd p) use_bias]
     @ (if use_bn then [BatchNorm1d (snd p) eps momentum] else [])
     @ (if use_relu then [ReLU True] else [])
     @ (if use_dropout then [Dropout] else [])"

text \<open>
  The pairs \<open>(last_dim, dim)\<close> the stages are built from, in the words of the
  specification: \<open>dim\<close> walks the widths after the first, and \<open>last_dim\<close> starts as
  the first width and advances to \<open>dim\<close> only in the nonlinearity branch.
\<close>

fun spec_pairs :: "bool \<Rightarrow> nat \<Rightarrow> nat list \<Rightarrow> (nat \<times> nat) list" where
  "spec_pairs use_nonlinear last_dim [] = []"
| "spec_pairs use_nonlinear last_dim (dim # rest) =
     (last_dim, dim) # spec_pairs use_nonlinear (if use_nonlinear then dim else last_dim) rest"

definition spec_stack ::
  "bool \<Rightarrow> bool \<Rightarrow> bool \<Rightarrow> bool \<Rightarrow> 'f \<Rightarrow> 'f \<Rightarrow> nat list \<Rightarrow> 'f layer list" where
  "spec_stack use_bn use_relu use_dropout use_bias eps momentum dims =
     concat (map (spec_stage use_bn use_relu use_dropout use_bias eps momentum)
                 (spec_pairs use_relu (hd dims) (tl dims)))"

text \<open>
  The stack in the words of claim C2: the stages of the consecutive pairs of \<open>dims\<close>,
  \<open>(dims[i], dims[i+1])\<close>.
\<close>

definition consecutive_stack ::
  "bool \<Rightarrow> bool \<Rightarrow> bool \<Rightarrow> bool \<Rightarrow> 'f \<Rightarrow> 'f \<Rightarrow> nat list \<Rightarrow> 'f layer list" where
  "consecutive_stack use_bn use_relu use_dropout use_bias eps momentum dims =
     concat (map (spec_stage use_bn use_relu use_dropout use_bias eps momentum)
                 (zip dims (tl dims)))"

subsection \<open>Values for the examples\<close>

text \<open>
  Two configurations to evaluate the constructor on. A float is written as the pair of the
  mantissa and the decimal exponent of its literal: \<open>(1, -5)\<close> is \<^verbatim>\<open>1e-5\<close> and
  \<open>(1, -1)\<close> is \<^verbatim>\<open>0.1\<close>.
\<close>

type_synonym decimal = "int \<times> int"

definition example_config :: "decimal model_config" where
  "example_config =
     \<lparr>HEAD = Some \<lparr>BATCHNORM_EPS = Some (1, -5), BATCHNORM_MOMENTUM = Some (1, -1)\<rparr>\<rparr>"

definition empty_config :: "decimal model_config" where
  "empty_config = \<lparr>HEAD = None\<rparr>"

section \<open>Properties\<close>

subsection \<open>Auxiliary facts\<close>

lemma loop_body_stage:
  assumes "use_bn \<longrightarrow> bn_args model_config = Inr (eps, momentum)"
  shows "loop_body model_config use_bn use_relu use_dropout use_bias (layers, last_dim) dim =
         Inr (layers @ spec_stage use_bn use_relu use_dropout use_bias eps momentum (last_dim, dim),
              if use_relu then dim else last_dim)"
  using assms by (simp add: loop_body_def spec_stage_def Let_def)

lemma for_dims_stages:
  assumes "use_bn \<longrightarrow> bn_args model_config = Inr (eps, momentum)"
  shows "\<exists>last_dim'.
           for_dims model_config use_bn use_relu use_dropout use_bias (layers, last_dim) rest =
           Inr (layers @ concat (map (spec_stage use_bn use_relu use_dropout use_bias eps momentum)
                                    (spec_pairs use_relu last_dim rest)),
                last_dim')"
proof (induction rest arbitrary: layers last_dim)
  case Nil
  show ?case by simp
next
  case (Cons dim rest)
  let ?stage = "spec_stage use_bn use_relu use_dropout use_bias eps momentum"
  let ?next = "if use_relu then dim else last_dim"
  obtain l where
    "for_dims model_config use_bn use_relu use_dropout use_bias
       (layers @ ?stage (last_dim, dim), ?next) rest =
     Inr ((layers @ ?stage (last_dim, dim)) @ concat (map ?stage (spec_pairs use_relu ?next rest)), l)"
    using Cons.IH by blast
  then show ?case
    by (simp add: loop_body_stage [OF assms])
qed

lemma MLP_init_stack:
  assumes "use_bn \<longrightarrow> bn_args model_config = Inr (eps, momentum)"
  shows "MLP_init model_config (d0 # rest) use_bn use_relu use_dropout use_bias =
         Inr \<lparr>clf = spec_stack use_bn use_relu use_dropout use_bias eps momentum (d0 # rest)\<rparr>"
proof -
  obtain l where
    "for_dims model_config use_bn use_relu use_dropout use_bias ([], d0) rest =
     Inr ([] @ concat (map (spec_stage use_bn use_relu use_dropout use_bias eps momentum)
                          (spec_pairs use_relu d0 rest)), l)"
    using for_dims_stages [OF assms] by blast
  then show ?thesis
    by (simp add: MLP_init_def spec_stack_def)
qed

lemma spec_pairs_relu: "spec_pairs True last_dim rest = zip (last_dim # rest) rest"
  by (induction rest arbitrary: last_dim) simp_all

lemma spec_pairs_no_relu: "spec_pairs False last_dim rest = map (Pair last_dim) rest"
  by (induction rest arbitrary: last_dim) simp_all

lemma length_spec_pairs: "length (spec_pairs use_relu last_dim rest) = length rest"
  by (induction rest arbitrary: last_dim) simp_all

lemma linear_widths_append:
  "linear_widths (xs @ ys) = linear_widths xs @ linear_widths ys"
  by (induction xs rule: linear_widths.induct) simp_all

lemma linear_widths_stage:
  "linear_widths (spec_stage use_bn use_relu use_dropout use_bias eps momentum p) = [p]"
  by (simp add: spec_stage_def)

lemma linear_widths_stages:
  "linear_widths (concat (map (spec_stage use_bn use_relu use_dropout use_bias eps momentum) ps)) = ps"
  by (induction ps) (simp_all add: linear_widths_append linear_widths_stage)

lemma length_stage:
  "length (spec_stage use_bn use_relu use_dropout use_bias eps momentum p) =
   1 + of_bool use_bn + of_bool use_relu + of_bool use_dropout"
  by (simp add: spec_stage_def)

lemma length_stages:
  "length (concat (map (spec_stage use_bn use_relu use_dropout use_bias eps momentum) ps)) =
   length ps * (1 + of_bool use_bn + of_bool use_relu + of_bool use_dropout)"
  by (induction ps) (simp_all add: length_stage)

lemma map_fst_spec_pairs_no_relu:
  "map fst (spec_pairs False last_dim rest) = replicate (length rest) last_dim"
  by (induction rest) (simp_all add: spec_pairs_no_relu)

lemma map_fst_spec_pairs_relu:
  "map fst (spec_pairs True last_dim rest) = butlast (last_dim # rest)"
  by (induction rest arbitrary: last_dim) simp_all

lemma map_snd_spec_pairs: "map snd (spec_pairs use_relu last_dim rest) = rest"
  by (induction rest arbitrary: last_dim) simp_all

lemma bn_args_example: "bn_args example_config = Inr ((1, -5), (1, -1))"
  by (simp add: bn_args_def getattr_def example_config_def)

lemma for_dims_no_bn:
  "for_dims cfg1 False use_relu use_dropout use_bias st rest =
   for_dims cfg2 False use_relu use_dropout use_bias st rest"
proof (induction rest arbitrary: st)
  case Nil
  show ?case by simp
next
  case (Cons dim rest)
  have "loop_body cfg1 False use_relu use_dropout use_bias st dim =
        loop_body cfg2 False use_relu use_dropout use_bias st dim"
    by (simp add: loop_body_def)
  then show ?case
    by (simp add: Cons.IH split: sum.split)
qed

lemma Sequential_call_append:
  "Sequential_call call (xs @ ys) x =
   (case Sequential_call call xs x of Inl e \<Rightarrow> Inl e | Inr y \<Rightarrow> Sequential_call call ys y)"
  by (induction xs arbitrary: x) (simp_all split: sum.split)

lemma foldl_raised:
  "foldl (\<lambda>r l. case r of Inl e \<Rightarrow> Inl e | Inr y \<Rightarrow> call l y) (Inl e) ls = Inl e"
  by (induction ls) simp_all

lemma Sequential_call_foldl:
  "Sequential_call call ls x =
   foldl (\<lambda>r l. case r of Inl e \<Rightarrow> Inl e | Inr y \<Rightarrow> call l y) (Inr x) ls"
proof (induction ls arbitrary: x)
  case Nil
  show ?case by simp
next
  case (Cons l ls)
  show ?case
    by (cases "call l x") (simp_all add: Cons.IH foldl_raised)
qed

lemma layer_shape_error: "layer_shape l s = Inl e \<Longrightarrow> e = ShapeMismatchError"
  by (cases l) (simp_all split: if_splits)

lemma Sequential_shape_error:
  "Sequential_call layer_shape ls s = Inl e \<Longrightarrow> e = ShapeMismatchError"
proof (induction ls arbitrary: s)
  case Nil
  then show ?case by simp
next
  case (Cons l ls)
  then show ?case
    by (cases "layer_shape l s") (auto dest: layer_shape_error)
qed

lemma stage_tail_shape:
  assumes "Sequential_call layer_shape
             ((if use_bn then [BatchNorm1d out eps momentum] else []) @
              (if use_dropout then [Dropout] else [])) u = Inr t"
  shows "t = u"
  using assms by (auto split: if_splits)

lemma stage_no_relu:
  "spec_stage use_bn False use_dropout use_bias eps momentum (i, out) =
   Linear i out use_bias #
     ((if use_bn then [BatchNorm1d out eps momentum] else []) @
      (if use_dropout then [Dropout] else []))"
  by (simp add: spec_stage_def)

lemma linear_first:
  assumes "Sequential_call layer_shape (Linear i out b # ls) s = Inr t"
  shows "Sequential_call layer_shape ls (butlast s @ [out]) = Inr t"
  using assms by (simp split: if_splits)

lemma stage_shape_last:
  assumes "Sequential_call layer_shape
             (spec_stage use_bn False use_dropout use_bias eps momentum (i, out)) s = Inr t"
  shows "t \<noteq> [] \<and> last t = out"
proof -
  from assms have
    "Sequential_call layer_shape
       ((if use_bn then [BatchNorm1d out eps momentum] else []) @
        (if use_dropout then [Dropout] else [])) (butlast s @ [out]) = Inr t"
    unfolding stage_no_relu by (rule linear_first)
  then have "t = butlast s @ [out]"
    by (rule stage_tail_shape)
  then show ?thesis by simp
qed

lemma stage_shape_mismatch:
  assumes "s \<noteq> []" and "last s \<noteq> i"
  shows "Sequential_call layer_shape
           (spec_stage use_bn use_relu use_dropout use_bias eps momentum (i, out) @ ls) s =
         Inl ShapeMismatchError"
  using assms by (simp add: spec_stage_def)

lemma two_stages_never_run:
  assumes "d0 \<noteq> d1"
  shows "Sequential_call layer_shape
           (spec_stage use_bn False use_dropout use_bias eps momentum (d0, d1) @
            spec_stage use_bn False use_dropout use_bias eps momentum (d0, d2) @ ls) s =
         Inl ShapeMismatchError"
proof (cases "Sequential_call layer_shape
                (spec_stage use_bn False use_dropout use_bias eps momentum (d0, d1)) s")
  case (Inl e)
  then show ?thesis
    by (simp add: Sequential_call_append Sequential_shape_error [OF Inl])
next
  case (Inr t)
  from stage_shape_last [OF Inr] assms have "t \<noteq> []" and "last t \<noteq> d0"
    by simp_all
  then have "Sequential_call layer_shape
               (spec_stage use_bn False use_dropout use_bias eps momentum (d0, d2) @ ls) t =
             Inl ShapeMismatchError"
    by (rule stage_shape_mismatch)
  then show ?thesis
    by (simp add: Inr
          Sequential_call_append [of _ "spec_stage use_bn False use_dropout use_bias eps momentum (d0, d1)"])
qed

subsection \<open>Input widths of the linear layers\<close>

text \<open>
  C1. \<open>last_dim\<close> advances to the previous stage's output width only when the
  nonlinearity flag is on. For every \<open>dims\<close> of length at least 3 (and a configuration
  that has the normalisation parameters when they are asked for), construction with
  \<open>use_relu = False\<close> succeeds and every linear layer of the stack has \<open>dims[0]\<close> as
  its input width; construction with \<open>use_relu = True\<close> succeeds and the \<open>i\<close>-th
  linear layer has \<open>dims[i]\<close> as its input width, that is, the input widths are \<open>dims\<close>
  without its last element.
\<close>

theorem last_dim_advances_only_with_relu:
  assumes "3 \<le> length dims"
    and "use_bn \<longrightarrow> bn_args model_config = Inr (eps, momentum)"
  shows "(\<exists>self. MLP_init model_config dims use_bn False use_dropout use_bias = Inr self \<and>
            map fst (linear_widths (clf self)) = replicate (length dims - 1) (dims ! 0)) \<and>
         (\<exists>self. MLP_init model_config dims use_bn True use_dropout use_bias = Inr self \<and>
            map fst (linear_widths (clf self)) = butlast dims)"
proof -
  from assms(1) obtain d0 rest where dims: "dims = d0 # rest"
    by (cases dims) auto
  have "map fst (linear_widths (spec_stack use_bn False use_dropout use_bias eps momentum dims)) =
        replicate (length dims - 1) (dims ! 0)"
    by (simp add: dims spec_stack_def linear_widths_stages map_fst_spec_pairs_no_relu)
  moreover have "map fst (linear_widths (spec_stack use_bn True use_dropout use_bias eps momentum dims)) =
        butlast dims"
    unfolding dims spec_stack_def linear_widths_stages
    by (simp only: list.sel map_fst_spec_pairs_relu)
  ultimately show ?thesis
    unfolding dims by (simp add: MLP_init_stack [OF assms(2)])
qed

theorem last_dim_advances_only_with_relu_witness:
  "3 \<le> length [8, 4, 2 :: nat] \<and>
   bn_args example_config = Inr ((1, -5), (1, -1)) \<and>
   MLP_init example_config [8, 4, 2] True False False True =
     Inr \<lparr>clf = [Linear 8 4 True, BatchNorm1d 4 (1, -5) (1, -1),
                 Linear 8 2 True, BatchNorm1d 2 (1, -5) (1, -1)]\<rparr> \<and>
   MLP_init example_config [8, 4, 2] True True False True =
     Inr \<lparr>clf = [Linear 8 4 True, BatchNorm1d 4 (1, -5) (1, -1), ReLU True,
                 Linear 4 2 True, BatchNorm1d 2 (1, -5) (1, -1), ReLU True]\<rparr>"
  using last_dim_advances_only_with_relu
    [of "[8, 4, 2]" True example_config "(1, -5)" "(1, -1)" False True]
  by (simp add: bn_args_example MLP_init_def loop_body_def)

subsection \<open>The layers of one stage\<close>

text \<open>
  The stack in closed form. For every \<open>dims\<close> of length at least 2 and every setting
  of the four flags (and a configuration that has the normalisation parameters when they
  are asked for), the constructor returns the stages of the loop's pairs
  \<open>(last_dim, dim)\<close>, each stage being a linear layer \<open>last_dim \<rightarrow> dim\<close> with bias iff
  \<open>use_bias\<close>, then iff \<open>use_bn\<close> a normalisation over \<open>dim\<close> channels with the
  epsilon and momentum of the configuration, then iff \<open>use_relu\<close> an in-place rectifier,
  then iff \<open>use_dropout\<close> a dropout built with no probability; and nothing else. Here
  \<open>dim\<close> walks \<open>dims[1:]\<close> and \<open>last_dim\<close> is the loop's variable.
\<close>

lemma MLP_init_builds_stages:
  assumes "2 \<le> length dims"
    and "use_bn \<longrightarrow> bn_args model_config = Inr (eps, momentum)"
  shows "MLP_init model_config dims use_bn use_relu use_dropout use_bias =
         Inr \<lparr>clf = spec_stack use_bn use_relu use_dropout use_bias eps momentum dims\<rparr>"
proof -
  from assms(1) obtain d0 rest where "dims = d0 # rest"
    by (cases dims) auto
  then show ?thesis
    by (simp add: MLP_init_stack [OF assms(2)])
qed

lemma MLP_init_builds_stages_example:
  "MLP_init example_config [8, 4, 2] True True True False =
     Inr \<lparr>clf = [Linear 8 4 False, BatchNorm1d 4 (1, -5) (1, -1), ReLU True, Dropout,
                 Linear 4 2 False, BatchNorm1d 2 (1, -5) (1, -1), ReLU True, Dropout]\<rparr>"
  using MLP_init_builds_stages
    [of "[8, 4, 2]" True example_config "(1, -5)" "(1, -1)" True True False]
  by (simp add: bn_args_example spec_stack_def spec_stage_def)

text \<open>
  With \<open>use_relu\<close> on, or with two widths only, the loop's pairs are the consecutive
  pairs of \<open>dims\<close>.
\<close>

lemma stack_with_relu_is_consecutive:
  assumes "dims \<noteq> []"
  shows "spec_stack use_bn True use_dropout use_bias eps momentum dims =
         consecutive_stack use_bn True use_dropout use_bias eps momentum dims"
proof -
  from assms obtain d0 rest where "dims = d0 # rest"
    by (cases dims) auto
  then show ?thesis
    by (simp add: spec_stack_def consecutive_stack_def spec_pairs_relu)
qed

lemma stack_of_two_widths_is_consecutive:
  "spec_stack use_bn use_relu use_dropout use_bias eps momentum [d0, d1] =
   consecutive_stack use_bn use_relu use_dropout use_bias eps momentum [d0, d1]"
  by (simp add: spec_stack_def consecutive_stack_def)

text \<open>
  C2. The claim is that, for every \<open>dims\<close> of length at least 2 and every setting of
  the four flags, the stack is made of the stages of the consecutive pairs of \<open>dims\<close>,
  in order: per pair a linear layer with bias iff \<open>use_bias\<close>, a normalisation iff
  \<open>use_bn\<close>, an in-place rectifier iff \<open>use_relu\<close>, a dropout iff \<open>use_dropout\<close>.
  The layers of a stage and their order are as claimed, but the pairs are not: the
  assignment \<^verbatim>\<open>last_dim = dim\<close> sits inside \<^verbatim>\<open>if use_relu\<close> (the defect of C3),
  while the class documentation lists \<^verbatim>\<open>Linear -> Linear -> ...\<close> among the stacks the
  module supports. For \<open>dims = [3, 4, 5]\<close> with \<open>use_bn\<close>, \<open>use_dropout\<close> and
  \<open>use_bias\<close> on and \<open>use_relu\<close> off, the constructor returns the stages of
  \<open>(3, 4)\<close> and \<open>(3, 5)\<close>, where the consecutive pairs are \<open>(3, 4)\<close> and
  \<open>(4, 5)\<close>: the fourth layer is the linear layer \<open>3 \<rightarrow> 5\<close>, not \<open>4 \<rightarrow> 5\<close>.
\<close>

theorem stages_without_relu_are_not_consecutive:
  "MLP_init example_config [3, 4, 5] True False True True =
     Inr \<lparr>clf = [Linear 3 4 True, BatchNorm1d 4 (1, -5) (1, -1), Dropout,
                 Linear 3 5 True, BatchNorm1d 5 (1, -5) (1, -1), Dropout]\<rparr> \<and>
   consecutive_stack True False True True (1, -5) (1, -1) [3, 4, 5] =
     [Linear 3 4 True, BatchNorm1d 4 (1, -5) (1, -1), Dropout,
      Linear 4 5 True, BatchNorm1d 5 (1, -5) (1, -1), Dropout :: decimal layer] \<and>
   MLP_init example_config [3, 4, 5] True False True True \<noteq>
     Inr \<lparr>clf = consecutive_stack True False True True (1, -5) (1, -1) [3, 4, 5]\<rparr>"
  by (simp add: MLP_init_def loop_body_def bn_args_example consecutive_stack_def spec_stage_def)

subsection \<open>Widths of the \<open>i\<close>-th linear layer\<close>

text \<open>
  C3. The claim is that, for every flag setting, the \<open>i\<close>-th linear layer maps
  \<open>dims[i]\<close> to \<open>dims[i+1]\<close>. The class documentation lists
  \<^verbatim>\<open>Linear -> Linear -> ...\<close> among the stacks the module supports, and the assignment
  \<^verbatim>\<open>last_dim = dim\<close> sits inside \<^verbatim>\<open>if use_relu\<close>. For \<open>dims = [3, 4, 5]\<close> with all
  flags but the bias off, the constructor returns two linear layers, \<open>3 \<rightarrow> 4\<close> and
  \<open>3 \<rightarrow> 5\<close>: the second one has input width \<open>dims[0]\<close> where the claim has
  \<open>dims[1]\<close>.
\<close>

theorem second_linear_keeps_first_width:
  "MLP_init empty_config [3, 4, 5] False False False True =
     Inr \<lparr>clf = [Linear 3 4 True, Linear 3 5 True]\<rparr> \<and>
   linear_widths [Linear 3 4 True, Linear 3 5 True :: decimal layer] = [(3, 4), (3, 5)] \<and>
   linear_widths [Linear 3 4 True, Linear 3 5 True :: decimal layer] \<noteq> zip [3, 4] [4, 5]"
  by (simp add: MLP_init_def loop_body_def)

subsection \<open>The forward pass\<close>

text \<open>
  C4, as amended. The forward pass first squeezes the batch and then feeds it through
  the stack in construction order, each layer on the result of the one before, stopping
  at the first raise. At the level of shapes, the squeeze is full: for an input of
  shape \<open>(N, C, 1, 1)\<close> with \<open>N > 1\<close> and \<open>C \<noteq> 1\<close> the layers are applied to the
  shape \<open>(N, C)\<close>; for \<open>N = 1\<close> the batch axis goes as well, and the layers are
  applied to the shape \<open>(C,)\<close>, or to the shape \<open>()\<close> when \<open>C = 1\<close>.
\<close>

theorem forward_squeezes_then_applies:
  "forward squeeze call self batch =
     foldl (\<lambda>r l. case r of Inl e \<Rightarrow> Inl e | Inr x \<Rightarrow> call l x) (Inr (squeeze batch)) (clf self) \<and>
   (1 < N \<and> C \<noteq> 1 \<longrightarrow>
      squeeze_shape [N, C, 1, 1] = [N, C] \<and>
      forward_shape self [N, C, 1, 1] = Sequential_call layer_shape (clf self) [N, C]) \<and>
   squeeze_shape [1, C, 1, 1] = (if C = 1 then [] else [C]) \<and>
   forward_shape self [1, C, 1, 1] =
     Sequential_call layer_shape (clf self) (if C = 1 then [] else [C])"
  by (simp add: forward_def squeeze_shape_def Sequential_call_foldl)

theorem forward_squeezes_then_applies_witness:
  "(1::nat) < 32 \<and> (8::nat) \<noteq> 1 \<and>
   squeeze_shape [32, 8, 1, 1] = [32, 8] \<and>
   forward_shape \<lparr>clf = [Linear 8 4 True, ReLU True :: decimal layer]\<rparr> [32, 8, 1, 1] = Inr [32, 4] \<and>
   forward_shape \<lparr>clf = [Linear 8 4 True, ReLU True :: decimal layer]\<rparr> [1, 8, 1, 1] = Inr [4]"
  using forward_squeezes_then_applies
    [of squeeze_shape layer_shape "\<lparr>clf = [Linear 8 4 True, ReLU True :: decimal layer]\<rparr>"
        "[32, 8, 1, 1]" 32 8]
  by simp

text \<open>
  The claim as it stands has the shape \<open>(N, C)\<close> for every \<open>N > 1\<close>. With one
  channel, the channel axis is squeezed away too: \<open>(2, 1, 1, 1)\<close> becomes \<open>(2,)\<close>.
\<close>

theorem squeeze_removes_unit_channel_axis:
  "(1::nat) < 2 \<and> squeeze_shape [2, 1, 1, 1] = [2] \<and> squeeze_shape [2, 1, 1, 1] \<noteq> [2, 1]"
  by (simp add: squeeze_shape_def)

subsection \<open>Linear layer followed by normalisation\<close>

text \<open>
  C5. For \<open>dims = [D0, D1]\<close> with \<open>use_bn\<close> on and \<open>use_relu\<close>, \<open>use_dropout\<close> off,
  and a configuration whose \<open>HEAD\<close> has both parameters, the stack is exactly the linear
  layer \<open>D0 \<rightarrow> D1\<close> followed by the normalisation layer, whose channel count is \<open>D1\<close>,
  whose epsilon is \<open>HEAD.BATCHNORM_EPS\<close> and whose momentum is
  \<open>HEAD.BATCHNORM_MOMENTUM\<close>.
\<close>

theorem linear_then_normalize:
  assumes "HEAD model_config = Some h"
    and "BATCHNORM_EPS h = Some eps"
    and "BATCHNORM_MOMENTUM h = Some momentum"
  shows "MLP_init model_config [D0, D1] True False False use_bias =
         Inr \<lparr>clf = [Linear D0 D1 use_bias, BatchNorm1d D1 eps momentum]\<rparr>"
  using assms by (simp add: MLP_init_def loop_body_def bn_args_def getattr_def)

theorem linear_then_normalize_witness:
  "HEAD example_config = Some \<lparr>BATCHNORM_EPS = Some (1, -5), BATCHNORM_MOMENTUM = Some (1, -1)\<rparr> \<and>
   MLP_init example_config [8192, 1000] True False False True =
     Inr \<lparr>clf = [Linear 8192 1000 True, BatchNorm1d 1000 (1, -5) (1, -1)]\<rparr>"
  using linear_then_normalize
    [of example_config "\<lparr>BATCHNORM_EPS = Some (1, -5), BATCHNORM_MOMENTUM = Some (1, -1)\<rparr>"
        "(1, -5)" "(1, -1)" 8192 1000 True]
  by (simp add: example_config_def)

subsection \<open>A single width\<close>

text \<open>
  C6. For \<open>dims = [D]\<close> and every flag setting and configuration, the constructor
  returns an object with the empty stack, and the forward pass of that object returns
  the squeezed input as it is, whatever the runtime's squeeze and layers are.
\<close>

theorem single_width_is_identity:
  "\<exists>self. MLP_init model_config [D] use_bn use_relu use_dropout use_bias = Inr self \<and>
          clf self = [] \<and>
          forward squeeze call self batch = Inr (squeeze batch)"
  by (simp add: MLP_init_def forward_def)

text \<open>
  C7, as amended. \<open>dims\<close> of length 1 is accepted and gives the empty stack;
  \<open>dims\<close> of length 0 is rejected, for every flag setting and configuration: reading
  \<open>dims[0]\<close> raises \<open>IndexError\<close> before any layer is built.
\<close>

theorem short_dims:
  "MLP_init model_config [D] use_bn use_relu use_dropout use_bias = Inr \<lparr>clf = []\<rparr> \<and>
   MLP_init model_config [] use_bn use_relu use_dropout use_bias = Inl IndexError"
  by (simp add: MLP_init_def)

text \<open>The claim as it stands has the empty \<open>dims\<close> accepted, with an empty stack.\<close>

theorem empty_dims_raises:
  "MLP_init empty_config [] False False False True = Inl IndexError \<and>
   MLP_init empty_config [] False False False True \<noteq> Inr \<lparr>clf = []\<rparr>"
  by (simp add: MLP_init_def)

subsection \<open>The configuration\<close>

text \<open>
  C8. With \<open>use_bn\<close> off the configuration is not read: for any two configurations,
  also ones that lack \<open>HEAD\<close> or its fields, and otherwise the same arguments, the
  constructor returns the same result.
\<close>

theorem config_unread_without_bn:
  "MLP_init cfg1 dims False use_relu use_dropout use_bias =
   MLP_init cfg2 dims False use_relu use_dropout use_bias"
  by (simp add: MLP_init_def for_dims_no_bn [of cfg1 _ _ _ _ _ cfg2] split: list.split)

subsection \<open>The number of layers\<close>

text \<open>
  C9. For every \<open>dims\<close> of length at least 1 and every flag setting (and a
  configuration that has the normalisation parameters when they are asked for), the
  constructor succeeds with a stack of
  \<open>(len(dims) - 1) * (1 + [use_bn] + [use_relu] + [use_dropout])\<close> layers.
\<close>

theorem layer_count:
  assumes "1 \<le> length dims"
    and "use_bn \<longrightarrow> bn_args model_config = Inr (eps, momentum)"
  shows "\<exists>self. MLP_init model_config dims use_bn use_relu use_dropout use_bias = Inr self \<and>
           length (clf self) =
           (length dims - 1) * (1 + of_bool use_bn + of_bool use_relu + of_bool use_dropout)"
proof -
  from assms(1) obtain d0 rest where "dims = d0 # rest"
    by (cases dims) auto
  then show ?thesis
    by (simp add: MLP_init_stack [OF assms(2)] spec_stack_def length_stages length_spec_pairs)
qed

theorem layer_count_witness:
  "1 \<le> length [8, 4, 2 :: nat] \<and>
   bn_args example_config = Inr ((1, -5), (1, -1)) \<and>
   (\<exists>self. MLP_init example_config [8, 4, 2] True False True True = Inr self \<and>
      length (clf self) = 6)"
  using layer_count [of "[8, 4, 2]" True example_config "(1, -5)" "(1, -1)" False True True]
  by (simp add: bn_args_example eval_nat_numeral)

subsection \<open>A stack that cannot run\<close>

text \<open>
  C10. With \<open>use_relu\<close> off, \<open>dims\<close> of length at least 3 and \<open>dims[0] \<noteq> dims[1]\<close>
  (and a configuration that has the normalisation parameters when they are asked for),
  the constructor succeeds with a stack whose first linear layer is
  \<open>dims[0] \<rightarrow> dims[1]\<close> and whose second one is \<open>dims[0] \<rightarrow> dims[2]\<close>, and at the
  level of shapes the forward pass of that object ends in a shape mismatch on every
  input.
\<close>

theorem no_relu_stack_never_runs:
  assumes "3 \<le> length dims"
    and "dims ! 0 \<noteq> dims ! 1"
    and "use_bn \<longrightarrow> bn_args model_config = Inr (eps, momentum)"
  shows "\<exists>self. MLP_init model_config dims use_bn False use_dropout use_bias = Inr self \<and>
           take 2 (linear_widths (clf self)) = [(dims ! 0, dims ! 1), (dims ! 0, dims ! 2)] \<and>
           (\<forall>batch. forward_shape self batch = Inl ShapeMismatchError)"
proof -
  from assms(1) obtain d0 d1 d2 rest where dims: "dims = d0 # d1 # d2 # rest"
    by (cases dims; cases "tl dims"; cases "tl (tl dims)") auto
  with assms(2) have neq: "d0 \<noteq> d1" by simp
  let ?stage = "spec_stage use_bn False use_dropout use_bias eps momentum"
  let ?more = "concat (map ?stage (spec_pairs False d0 rest))"
  have stack: "spec_stack use_bn False use_dropout use_bias eps momentum dims =
               ?stage (d0, d1) @ ?stage (d0, d2) @ ?more"
    by (simp add: dims spec_stack_def)
  have "take 2 (linear_widths (?stage (d0, d1) @ ?stage (d0, d2) @ ?more)) = [(d0, d1), (d0, d2)]"
    by (simp add: linear_widths_append linear_widths_stage)
  moreover have "\<forall>batch. forward_shape \<lparr>clf = ?stage (d0, d1) @ ?stage (d0, d2) @ ?more\<rparr> batch =
                   Inl ShapeMismatchError"
    by (simp add: forward_def two_stages_never_run [OF neq])
  ultimately show ?thesis
    using MLP_init_stack [OF assms(3), of d0 "d1 # d2 # rest" False use_dropout use_bias]
    by (simp add: dims stack [unfolded dims])
qed

theorem no_relu_stack_never_runs_witness:
  "3 \<le> length [8, 4, 2 :: nat] \<and> [8, 4, 2 :: nat] ! 0 \<noteq> [8, 4, 2] ! 1 \<and>
   bn_args example_config = Inr ((1, -5), (1, -1)) \<and>
   MLP_init example_config [8, 4, 2] True False True True =
     Inr \<lparr>clf = [Linear 8 4 True, BatchNorm1d 4 (1, -5) (1, -1), Dropout,
                 Linear 8 2 True, BatchNorm1d 2 (1, -5) (1, -1), Dropout]\<rparr> \<and>
   (\<forall>batch. forward_shape
      \<lparr>clf = [Linear 8 4 True, BatchNorm1d 4 (1, -5) (1, -1), Dropout,
              Linear 8 2 True, BatchNorm1d 2 (1, -5) (1, -1), Dropout :: decimal layer]\<rparr> batch =
      Inl ShapeMismatchError)"
proof -
  have init: "MLP_init example_config [8, 4, 2] True False True True =
     Inr \<lparr>clf = [Linear 8 4 True, BatchNorm1d 4 (1, -5) (1, -1), Dropout,
                 Linear 8 2 True, BatchNorm1d 2 (1, -5) (1, -1), Dropout]\<rparr>"
    by (simp add: MLP_init_def loop_body_def bn_args_example)
  show ?thesis
    using no_relu_stack_never_runs
      [of "[8, 4, 2]" True example_config "(1, -5)" "(1, -1)" True True]
    by (simp add: bn_args_example init)
qed

end
